theory Spec2Isabelle
  imports Complex_Main
begin

section \<open>Python values, exceptions and control flow\<close>

text \<open>
  The program is \<^verbatim>\<open>src/symptom_tracker_app.py\<close>: three fetch functions
  (\<^verbatim>\<open>get_weather\<close>, \<^verbatim>\<open>get_pollenstiftung\<close>, \<^verbatim>\<open>get_dwd_pollen\<close>) and a
  module-level block that assembles a diary entry and appends it to a CSV file.

  Everything the functions receive from outside (the HTTP service, the CSV download, the
  Meteostat station directory, the file system) is an explicit argument of the model, and
  each such call either raises or returns a value.

  The exceptions are the ones the libraries and the interpreter raise on these paths; all
  of them are subclasses of Python's \<^verbatim>\<open>Exception\<close>, which is what the two
  \<^verbatim>\<open>except Exception\<close> handlers of the source catch.
\<close>

datatype exn =
    ValueError | TypeError | KeyError | IndexError | AttributeError
  | ConnectionError | HTTPError | JSONDecodeError | ParserError | OSError

text \<open>
  Python values as they flow through the program. A float is carried as a real number
  (no arithmetic is ever done on one); \<open>PNaN\<close> and \<open>PNaT\<close> are the missing-value
  markers of pandas. A calendar date is its proleptic Gregorian ordinal; a timestamp is
  a date with the nanoseconds since midnight. A dict is the list of its items in
  insertion order; its keys are distinct. \<open>PSeries\<close> is a pandas column.
\<close>

datatype pyval =
    PNone
  | PBool bool
  | PInt int
  | PFloat real
  | PNaN
  | PStr string
  | PDate int
  | PTimestamp int nat
  | PNaT
  | PList "pyval list"
  | PDict "(string \<times> pyval) list"
  | PSeries "pyval list"

type_synonym pydict = "(string \<times> pyval) list"

text \<open>Sequencing of fallible steps: the first exception raised ends the computation.\<close>

definition seq :: "exn + 'a \<Rightarrow> ('a \<Rightarrow> exn + 'b) \<Rightarrow> exn + 'b" where
  "seq m f = (case m of Inl e \<Rightarrow> Inl e | Inr v \<Rightarrow> f v)"

text \<open>
  \<^verbatim>\<open>try: return body  except Exception: return fallback\<close>: every exception of the body
  is replaced by the fallback value.
\<close>

definition try_except :: "exn + 'a \<Rightarrow> 'a \<Rightarrow> exn + 'a" where
  "try_except body fallback = (case body of Inl e \<Rightarrow> Inr fallback | Inr v \<Rightarrow> Inr v)"

text \<open>
  \<^verbatim>\<open>x.get(key, default)\<close> on a value of a decoded JSON body (None, a bool, a number,
  a string, a list or a dict): only a dict has the method, on the others the attribute
  lookup raises AttributeError. The remaining constructors do not occur in a JSON body.
\<close>

fun dict_get :: "pyval \<Rightarrow> string \<Rightarrow> pyval \<Rightarrow> exn + pyval" where
  "dict_get (PDict items) k d = Inr (case map_of items k of Some v \<Rightarrow> v | None \<Rightarrow> d)"
| "dict_get _ k d = Inl AttributeError"

text \<open>\<^verbatim>\<open>d[key]\<close> on a dict: KeyError when the key is missing.\<close>

definition dict_getitem :: "pydict \<Rightarrow> string \<Rightarrow> exn + pyval" where
  "dict_getitem d k = (case map_of d k of Some v \<Rightarrow> Inr v | None \<Rightarrow> Inl KeyError)"

section \<open>The PollenReading keys\<close>

text \<open>
  The second key is \<^verbatim>\<open>gr\<close>, a-umlaut, \<^verbatim>\<open>ser\<close>: the umlaut is the code point U+00E4.
\<close>

definition key_birke :: string where
  "key_birke = ''birke''"

definition key_graeser :: string where
  "key_graeser = ''gr'' @ [CHR 0xE4] @ ''ser''"

definition key_ambrosia :: string where
  "key_ambrosia = ''ambrosia''"

text \<open>The value of both \<^verbatim>\<open>except\<close> branches: all three values None.\<close>

definition pollen_absent :: pydict where
  "pollen_absent = [(key_birke, PNone), (key_graeser, PNone), (key_ambrosia, PNone)]"

section \<open>Pollen provider A: \<^verbatim>\<open>get_pollenstiftung\<close>\<close>

text \<open>
  What \<^verbatim>\<open>requests.get\<close> returns: the status code, and what \<^verbatim>\<open>resp.json()\<close> gives
  on the body (the parsed value, or the decoding error it raises).
\<close>

record response =
  status_code :: int
  json_body :: "exn + pyval"

type_synonym requests_get = "string \<Rightarrow> pydict \<Rightarrow> exn + response"

definition POLLENSTIFTUNG_API_URL :: string where
  "POLLENSTIFTUNG_API_URL = ''https://www.pollenstiftung.de/services/forecast''"

text \<open>
  \<^verbatim>\<open>resp.raise_for_status()\<close> of the requests library raises HTTPError for a client
  error (400 to 499) or a server error (500 to 599), and for no other status.
\<close>

definition raise_for_status :: "response \<Rightarrow> exn + unit" where
  "raise_for_status resp =
     (if 400 \<le> status_code resp \<and> status_code resp < 600 then Inl HTTPError else Inr ())"

text \<open>\<^verbatim>\<open>data.get(name, {}).get('index')\<close>\<close>

definition allergen_index :: "pyval \<Rightarrow> string \<Rightarrow> exn + pyval" where
  "allergen_index data name =
     seq (dict_get data name (PDict [])) (\<lambda>forecast. dict_get forecast ''index'' PNone)"

definition get_pollenstiftung :: "requests_get \<Rightarrow> real \<Rightarrow> real \<Rightarrow> exn + pydict" where
  "get_pollenstiftung http_get lat lon =
     try_except
       (seq (http_get POLLENSTIFTUNG_API_URL [(''lat'', PFloat lat), (''lng'', PFloat lon)]) (\<lambda>resp.
        seq (raise_for_status resp) (\<lambda>_.
        seq (json_body resp) (\<lambda>data.
        seq (allergen_index data key_birke) (\<lambda>b.
        seq (allergen_index data key_graeser) (\<lambda>g.
        seq (allergen_index data key_ambrosia) (\<lambda>a.
        Inr [(key_birke, b), (key_graeser, g), (key_ambrosia, a)])))))))
       pollen_absent"

section \<open>Data frames\<close>

text \<open>
  A pandas DataFrame: the column labels and the rows in their order, each row the list
  of its cells in column order. A Series taken from one row (\<^verbatim>\<open>iloc[0]\<close>) pairs each
  label with the row's cell.
\<close>

record dataframe =
  columns :: "string list"
  rows :: "pyval list list"

type_synonym series = "(string \<times> pyval) list"

definition cell :: "dataframe \<Rightarrow> pyval list \<Rightarrow> string \<Rightarrow> pyval option" where
  "cell df r c = map_of (zip (columns df) r) c"

text \<open>\<^verbatim>\<open>df[c]\<close>: the column as a list of cells; KeyError when there is no such column.\<close>

definition getitem_column :: "dataframe \<Rightarrow> string \<Rightarrow> exn + pyval list" where
  "getitem_column df c =
     (if c \<in> set (columns df)
      then Inr (map (\<lambda>r. case cell df r c of Some v \<Rightarrow> v | None \<Rightarrow> PNaN) (rows df))
      else Inl KeyError)"

text \<open>\<^verbatim>\<open>column == value\<close>: the element-wise comparison, a boolean mask.\<close>

definition eq_mask :: "pyval list \<Rightarrow> pyval \<Rightarrow> bool list" where
  "eq_mask col v = map (\<lambda>c. c = v) col"

text \<open>\<^verbatim>\<open>df[mask]\<close>: the rows whose mask entry is True, in row order.\<close>

definition boolean_index :: "dataframe \<Rightarrow> bool list \<Rightarrow> dataframe" where
  "boolean_index df bs = df\<lparr>rows := map fst (filter snd (zip (rows df) bs))\<rparr>"

text \<open>\<^verbatim>\<open>df.iloc[0]\<close>: the first row as a Series; IndexError on a frame without rows.\<close>

definition iloc0 :: "dataframe \<Rightarrow> exn + series" where
  "iloc0 df = (case rows df of [] \<Rightarrow> Inl IndexError | r # _ \<Rightarrow> Inr (zip (columns df) r))"

text \<open>\<^verbatim>\<open>row.get(label)\<close>: the cell, or None when the Series has no such label.\<close>

definition series_get :: "series \<Rightarrow> string \<Rightarrow> pyval" where
  "series_get s label = (case map_of s label of Some v \<Rightarrow> v | None \<Rightarrow> PNone)"

text \<open>\<^verbatim>\<open>pd.to_datetime(dt)\<close> of a calendar date: midnight of that day.\<close>

definition to_datetime :: "int \<Rightarrow> pyval" where
  "to_datetime dt = PTimestamp dt 0"

section \<open>Pollen provider B: \<^verbatim>\<open>get_dwd_pollen\<close>\<close>

text \<open>
  \<^verbatim>\<open>pd.read_csv(url, parse_dates=['date'], dayfirst=True)\<close> is the download and the
  parse together: for each URL it raises or returns a frame whose date cells are
  timestamps where the parse succeeded.
\<close>

type_synonym read_csv = "string \<Rightarrow> exn + dataframe"

definition DWD_POLLEN_BASE_URL :: string where
  "DWD_POLLEN_BASE_URL = ''https://opendata.dwd.de/climate_environment/health/pollen_stations''"

definition station_id :: string where
  "station_id = ''001''"

definition dwd_url :: string where
  "dwd_url = DWD_POLLEN_BASE_URL @ ''/'' @ station_id @ ''.csv''"

text \<open>The source columns \<^verbatim>\<open>Birke\<close>, \<^verbatim>\<open>Gr\<close>a-umlaut\<^verbatim>\<open>ser\<close>, \<^verbatim>\<open>Ambrosia\<close>.\<close>

definition col_Birke :: string where
  "col_Birke = ''Birke''"

definition col_Graeser :: string where
  "col_Graeser = ''Gr'' @ [CHR 0xE4] @ ''ser''"

definition col_Ambrosia :: string where
  "col_Ambrosia = ''Ambrosia''"

definition get_dwd_pollen :: "read_csv \<Rightarrow> real \<Rightarrow> real \<Rightarrow> int \<Rightarrow> exn + pydict" where
  "get_dwd_pollen read lat lon dt =
     try_except
       (seq (read dwd_url) (\<lambda>df.
        seq (getitem_column df ''date'') (\<lambda>dates.
        seq (iloc0 (boolean_index df (eq_mask dates (to_datetime dt)))) (\<lambda>row.
        Inr [(key_birke, series_get row col_Birke),
             (key_graeser, series_get row col_Graeser),
             (key_ambrosia, series_get row col_Ambrosia)]))))
       pollen_absent"

text \<open>
  The rows of a frame whose date cell equals the requested date, in row order, and the
  reading the source builds from one row.
\<close>

definition matching_rows :: "dataframe \<Rightarrow> int \<Rightarrow> pyval list list" where
  "matching_rows df dt = filter (\<lambda>r. cell df r ''date'' = Some (to_datetime dt)) (rows df)"

definition reading_of_row :: "dataframe \<Rightarrow> pyval list \<Rightarrow> pydict" where
  "reading_of_row df r =
     [(key_birke, series_get (zip (columns df) r) col_Birke),
      (key_graeser, series_get (zip (columns df) r) col_Graeser),
      (key_ambrosia, series_get (zip (columns df) r) col_Ambrosia)]"

section \<open>Station resolver: \<^verbatim>\<open>get_weather\<close>\<close>

text \<open>
  The date argument is a string, a pandas Timestamp or a date. The three services the
  function calls: \<^verbatim>\<open>datetime.strptime(s, "%Y-%m-%d").date()\<close>, which raises ValueError
  on a string that is not such a date; \<^verbatim>\<open>Stations().nearby(lat, lon).fetch(1)\<close>, which
  gives the index of the station frame (at most one station identifier); and
  \<^verbatim>\<open>Daily(station, start, end).fetch()\<close>.
\<close>

datatype dt_arg = DtStr string | DtTimestamp int nat | DtDate int

record weather_env =
  strptime_date :: "string \<Rightarrow> exn + int"
  stations_nearby :: "real \<Rightarrow> real \<Rightarrow> exn + string list"
  daily_fetch :: "string \<Rightarrow> int \<Rightarrow> int \<Rightarrow> exn + dataframe"

fun normalize_dt :: "weather_env \<Rightarrow> dt_arg \<Rightarrow> exn + int" where
  "normalize_dt env (DtStr s) = strptime_date env s"
| "normalize_dt env (DtTimestamp d ns) = Inr d"
| "normalize_dt env (DtDate d) = Inr d"

definition get_weather :: "weather_env \<Rightarrow> dt_arg \<Rightarrow> real \<Rightarrow> real \<Rightarrow> exn + dataframe option" where
  "get_weather env dt lat lon =
     seq (normalize_dt env dt) (\<lambda>d.
     seq (stations_nearby env lat lon) (\<lambda>station.
       case station of
         [] \<Rightarrow> Inr None
       | s # _ \<Rightarrow> seq (daily_fetch env s d d) (\<lambda>data. Inr (Some data))))"

text \<open>
  \<^verbatim>\<open>weather['tavg']\<close> at the call site: subscripting None raises TypeError; on a frame
  it is the column, KeyError when the frame has no such column.
\<close>

definition weather_getitem :: "dataframe option \<Rightarrow> string \<Rightarrow> exn + pyval" where
  "weather_getitem weather c =
     (case weather of
        None \<Rightarrow> Inl TypeError
      | Some df \<Rightarrow> seq (getitem_column df c) (\<lambda>col. Inr (PSeries col)))"

text \<open>
  The reading the specification calls NotFound-shaped: every weather field can be read
  and is absent.
\<close>

definition not_found_shaped :: "exn + dataframe option \<Rightarrow> bool" where
  "not_found_shaped res =
     (case res of
        Inl e \<Rightarrow> False
      | Inr weather \<Rightarrow>
          weather_getitem weather ''tavg'' \<in> {Inr PNone, Inr (PSeries [])} \<and>
          weather_getitem weather ''rhum'' \<in> {Inr PNone, Inr (PSeries [])} \<and>
          weather_getitem weather ''prcp'' \<in> {Inr PNone, Inr (PSeries [])})"

section \<open>Entry assembler: the save block\<close>

text \<open>
  The values in scope when the save block runs: the date, the coordinates, the result of
  \<^verbatim>\<open>get_weather\<close>, the pollen dict, the three slider values and the notes.
\<close>

record ui_state =
  ui_dt :: int
  ui_lat :: real
  ui_lon :: real
  ui_weather :: "dataframe option"
  ui_pollen :: pydict
  ui_fatigue :: int
  ui_runnynose :: int
  ui_sorethroat :: int
  ui_notes :: string

text \<open>
  The dict literal \<^verbatim>\<open>entry = {'Datum': dt, 'lat': lat, ...}\<close>: its items are evaluated
  left to right, and a subscript that raises ends the block.
\<close>

definition make_entry :: "ui_state \<Rightarrow> exn + pydict" where
  "make_entry u =
     seq (weather_getitem (ui_weather u) ''tavg'') (\<lambda>tavg.
     seq (weather_getitem (ui_weather u) ''rhum'') (\<lambda>rhum.
     seq (weather_getitem (ui_weather u) ''prcp'') (\<lambda>prcp.
     seq (dict_getitem (ui_pollen u) key_birke) (\<lambda>b.
     seq (dict_getitem (ui_pollen u) key_graeser) (\<lambda>g.
     seq (dict_getitem (ui_pollen u) key_ambrosia) (\<lambda>a.
     Inr [(''Datum'', PDate (ui_dt u)),
          (''lat'', PFloat (ui_lat u)), (''lon'', PFloat (ui_lon u)),
          (''tavg'', tavg), (''rhum'', rhum), (''prcp'', prcp),
          (key_birke, b), (key_graeser, g), (key_ambrosia, a),
          (''muedigkeit'', PInt (ui_fatigue u)),
          (''nase_laufen'', PInt (ui_runnynose u)),
          (''halsweh'', PInt (ui_sorethroat u)),
          (''anmerkungen'', PStr (ui_notes u))]))))))"

text \<open>\<^verbatim>\<open>pd.DataFrame([entry])\<close>: one row, the columns are the dict's keys in order.\<close>

definition DataFrame_of :: "pydict \<Rightarrow> dataframe" where
  "DataFrame_of entry = \<lparr>columns = map fst entry, rows = [map snd entry]\<rparr>"

text \<open>
  The file system: the content of each existing file as its text, and for each path the
  error that opening it for writing raises, if any.
\<close>

record filesystem =
  files :: "string \<Rightarrow> string option"
  write_error :: "string \<Rightarrow> exn option"

definition os_path_exists :: "filesystem \<Rightarrow> string \<Rightarrow> bool" where
  "os_path_exists fs path = (files fs path \<noteq> None)"

datatype file_mode = ModeW | ModeA

text \<open>
  How pandas turns records into CSV text: the text of one cell (the formatting of
  numbers and dates, the empty text of a missing value, the quoting) and the line
  terminator (\<^verbatim>\<open>os.linesep\<close>) are those of the library and the platform; the cells
  of a record are separated by commas and every record written ends with the line
  terminator.
\<close>

record csv_dialect =
  cell_text :: "pyval \<Rightarrow> string"
  lineterminator :: string

fun csv_line :: "csv_dialect \<Rightarrow> pyval list \<Rightarrow> string" where
  "csv_line w [] = []"
| "csv_line w [c] = cell_text w c"
| "csv_line w (c # cs) = cell_text w c @ '','' @ csv_line w cs"

definition csv_text :: "csv_dialect \<Rightarrow> pyval list list \<Rightarrow> string" where
  "csv_text w recs = concat (map (\<lambda>r. csv_line w r @ lineterminator w) recs)"

text \<open>
  The records \<^verbatim>\<open>to_csv(..., index=False)\<close> writes for a frame: the column names first
  when \<^verbatim>\<open>header\<close> is true (the default), then the rows.
\<close>

definition csv_records :: "dataframe \<Rightarrow> bool \<Rightarrow> pyval list list" where
  "csv_records df header = (if header then [map PStr (columns df)] else []) @ rows df"

text \<open>
  \<^verbatim>\<open>df.to_csv(path, mode=..., header=..., index=False)\<close>: mode \<^verbatim>\<open>'w'\<close> (the default)
  replaces the content of the file, mode \<^verbatim>\<open>'a'\<close> writes the text directly after the
  content that is there, whatever that content is.
\<close>

definition to_csv ::
  "csv_dialect \<Rightarrow> dataframe \<Rightarrow> filesystem \<Rightarrow> string \<Rightarrow> file_mode \<Rightarrow> bool \<Rightarrow> exn + filesystem"
where
  "to_csv w df fs path mode header =
     (case write_error fs path of
        Some e \<Rightarrow> Inl e
      | None \<Rightarrow>
          let old = (case mode of
                       ModeW \<Rightarrow> []
                     | ModeA \<Rightarrow> (case files fs path of None \<Rightarrow> [] | Some content \<Rightarrow> content))
          in Inr (fs\<lparr>files := (files fs)(path \<mapsto> old @ csv_text w (csv_records df header))\<rparr>))"

definition store_file :: string where
  "store_file = ''allergie_tagebuch.csv''"

definition save_entry :: "csv_dialect \<Rightarrow> filesystem \<Rightarrow> ui_state \<Rightarrow> exn + filesystem" where
  "save_entry w fs u =
     seq (make_entry u) (\<lambda>entry.
       let df = DataFrame_of entry; file = store_file
       in if os_path_exists fs file
          then to_csv w df fs file ModeA False
          else to_csv w df fs file ModeW True)"

text \<open>The save block run once for each of a list of submissions, in order.\<close>

fun save_all :: "csv_dialect \<Rightarrow> filesystem \<Rightarrow> ui_state list \<Rightarrow> exn + filesystem" where
  "save_all w fs [] = Inr fs"
| "save_all w fs (u # us) = seq (save_entry w fs u) (\<lambda>fs'. save_all w fs' us)"

text \<open>The header record and the data record the save block writes for a submission.\<close>

definition header_record :: "pyval list" where
  "header_record =
     map PStr [''Datum'', ''lat'', ''lon'', ''tavg'', ''rhum'', ''prcp'',
               key_birke, key_graeser, key_ambrosia,
               ''muedigkeit'', ''nase_laufen'', ''halsweh'', ''anmerkungen'']"

definition data_record :: "ui_state \<Rightarrow> pyval list" where
  "data_record u = (case make_entry u of Inl e \<Rightarrow> [] | Inr entry \<Rightarrow> map snd entry)"

section \<open>Notions used to state the properties\<close>

text \<open>
  When the remote fetch of provider A fails: the request raises, the status is one that
  \<^verbatim>\<open>raise_for_status\<close> rejects, the body does not parse, or the parsed body does not
  have the expected shape (it is not an object, or one of the three allergen entries is
  present and is not an object).
\<close>

fun is_dict :: "pyval \<Rightarrow> bool" where
  "is_dict (PDict items) = True"
| "is_dict _ = False"

fun entry_not_object :: "(string \<times> pyval) list \<Rightarrow> string \<Rightarrow> bool" where
  "entry_not_object items name =
     (case map_of items name of None \<Rightarrow> False | Some v \<Rightarrow> \<not> is_dict v)"

fun malformed :: "pyval \<Rightarrow> bool" where
  "malformed (PDict items) =
     (entry_not_object items key_birke \<or> entry_not_object items key_graeser \<or>
      entry_not_object items key_ambrosia)"
| "malformed _ = True"

definition fetch_fails :: "requests_get \<Rightarrow> real \<Rightarrow> real \<Rightarrow> bool" where
  "fetch_fails http_get lat lon =
     (case http_get POLLENSTIFTUNG_API_URL [(''lat'', PFloat lat), (''lng'', PFloat lon)] of
        Inl e \<Rightarrow> True
      | Inr resp \<Rightarrow>
          (400 \<le> status_code resp \<and> status_code resp < 600) \<or>
          (case json_body resp of Inl e \<Rightarrow> True | Inr data \<Rightarrow> malformed data))"

text \<open>A status outside 200 to 299, the specification's wording of an HTTP failure.\<close>

definition non_2xx :: "response \<Rightarrow> bool" where
  "non_2xx resp = (\<not> (200 \<le> status_code resp \<and> status_code resp < 300))"

text \<open>The keys of a dict are exactly the three PollenReading keys, each once.\<close>

definition pollen_shaped :: "pydict \<Rightarrow> bool" where
  "pollen_shaped d =
     (map fst d = [key_birke, key_graeser, key_ambrosia] \<and> distinct (map fst d))"

text \<open>
  The entry of a submission assembles: none of the subscripts of the dict literal raises.
  It conforms when its keys, in order, are the names of the header record.
\<close>

definition assembles :: "ui_state \<Rightarrow> bool" where
  "assembles u = (case make_entry u of Inl e \<Rightarrow> False | Inr entry \<Rightarrow> True)"

definition conforms :: "ui_state \<Rightarrow> bool" where
  "conforms u =
     (case make_entry u of
        Inl e \<Rightarrow> False
      | Inr entry \<Rightarrow> map PStr (map fst entry) = header_record \<and> length entry = 13)"

section \<open>Example inputs\<close>

text \<open>
  Responses of the forecast service: a parseable forecast under status 300, the same
  body under status 500, and a service that cannot be reached.
\<close>

definition forecast_body :: pyval where
  "forecast_body =
     PDict [(key_birke, PDict [(''index'', PInt 3)]),
            (key_graeser, PDict [(''index'', PInt 1)]),
            (key_ambrosia, PDict [(''index'', PInt 0)])]"

definition http_300 :: requests_get where
  "http_300 url params = Inr \<lparr>status_code = 300, json_body = Inr forecast_body\<rparr>"

definition http_500 :: requests_get where
  "http_500 url params = Inr \<lparr>status_code = 500, json_body = Inr forecast_body\<rparr>"

definition http_down :: requests_get where
  "http_down url params = Inl ConnectionError"

text \<open>
  A pollen dataset of station 001: one row for 2024-05-01 (ordinal 739007), two rows for
  2024-05-02, none for any other day.
\<close>

definition sample_frame :: dataframe where
  "sample_frame =
     \<lparr>columns = [''date'', col_Birke, col_Graeser, col_Ambrosia],
      rows = [[PTimestamp 739007 0, PInt 3, PInt 1, PInt 0],
              [PTimestamp 739008 0, PInt 2, PInt 4, PInt 0],
              [PTimestamp 739008 0, PInt 5, PInt 6, PInt 7]]\<rparr>"

definition read_sample :: read_csv where
  "read_sample url = (if url = dwd_url then Inr sample_frame else Inl ConnectionError)"

definition read_down :: read_csv where
  "read_down url = Inl ConnectionError"

text \<open>
  Weather services: unreachable; reachable with no station near the coordinates;
  a station whose daily data cannot be fetched; a station with one day of data.
\<close>

definition daily_frame :: dataframe where
  "daily_frame =
     \<lparr>columns = [''tavg'', ''rhum'', ''prcp''],
      rows = [[PFloat (25 / 2), PFloat 60, PFloat 0]]\<rparr>"

definition env_offline :: weather_env where
  "env_offline =
     \<lparr>strptime_date = (\<lambda>s. Inl ValueError),
      stations_nearby = (\<lambda>lat lon. Inl ConnectionError),
      daily_fetch = (\<lambda>s a b. Inl ConnectionError)\<rparr>"

definition env_no_station :: weather_env where
  "env_no_station =
     \<lparr>strptime_date = (\<lambda>s. Inl ValueError),
      stations_nearby = (\<lambda>lat lon. Inr []),
      daily_fetch = (\<lambda>s a b. Inl ConnectionError)\<rparr>"

definition env_daily_down :: weather_env where
  "env_daily_down =
     \<lparr>strptime_date = (\<lambda>s. Inl ValueError),
      stations_nearby = (\<lambda>lat lon. Inr [''10554'']),
      daily_fetch = (\<lambda>s a b. Inl ConnectionError)\<rparr>"

definition env_ok :: weather_env where
  "env_ok =
     \<lparr>strptime_date = (\<lambda>s. Inl ValueError),
      stations_nearby = (\<lambda>lat lon. Inr [''10554'']),
      daily_fetch = (\<lambda>s a b. Inr daily_frame)\<rparr>"

text \<open>A submission, an empty writable file system and one that refuses every write.\<close>

definition sample_ui :: ui_state where
  "sample_ui =
     \<lparr>ui_dt = 739007, ui_lat = 5116 / 100, ui_lon = 1045 / 100,
      ui_weather = Some daily_frame,
      ui_pollen = [(key_birke, PInt 3), (key_graeser, PInt 1), (key_ambrosia, PInt 0)],
      ui_fatigue = 5, ui_runnynose = 0, ui_sorethroat = 0, ui_notes = ''ok''\<rparr>"

definition fs_empty :: filesystem where
  "fs_empty = \<lparr>files = (\<lambda>path. None), write_error = (\<lambda>path. None)\<rparr>"

definition fs_readonly :: filesystem where
  "fs_readonly = \<lparr>files = (\<lambda>path. None), write_error = (\<lambda>path. Some OSError)\<rparr>"

text \<open>
  An example dialect: a string is written as it is, every other cell as the empty text,
  and a line ends with a line feed.
\<close>

fun plain_text :: "pyval \<Rightarrow> string" where
  "plain_text (PStr s) = s"
| "plain_text v = []"

definition posix_csv :: csv_dialect where
  "posix_csv = \<lparr>cell_text = plain_text, lineterminator = [CHR 0x0A]\<rparr>"

text \<open>
  A store file that holds the header line, and one that holds the header's text without
  the line terminator.
\<close>

definition fs_existing :: filesystem where
  "fs_existing =
     \<lparr>files = (\<lambda>path. if path = store_file then Some (csv_text posix_csv [header_record])
                        else None),
      write_error = (\<lambda>path. None)\<rparr>"

definition fs_unterminated :: filesystem where
  "fs_unterminated =
     \<lparr>files = (\<lambda>path. if path = store_file then Some (csv_line posix_csv header_record)
                        else None),
      write_error = (\<lambda>path. None)\<rparr>"

section \<open>Auxiliary facts\<close>

lemmas key_defs = key_birke_def key_graeser_def key_ambrosia_def
lemmas col_defs = col_Birke_def col_Graeser_def col_Ambrosia_def

lemma try_except_Inr: "\<exists>v. try_except body fallback = Inr v"
  by (cases body) (simp_all add: try_except_def)

lemma allergen_index_not_dict: "\<not> is_dict data \<Longrightarrow> allergen_index data name = Inl AttributeError"
  by (cases data) (simp_all add: allergen_index_def seq_def)

lemma allergen_index_entry:
  "entry_not_object items name \<Longrightarrow> allergen_index (PDict items) name = Inl AttributeError"
  by (cases "map_of items name"; cases "the (map_of items name)")
     (simp_all add: allergen_index_def seq_def)

lemma seq_Inl: "seq (Inl e) f = Inl e"
  by (simp add: seq_def)

lemma seq_Inr: "seq (Inr v) f = f v"
  by (simp add: seq_def)

lemma dict_get_exn: "dict_get x k d = Inl e \<Longrightarrow> e = AttributeError"
  by (cases x) simp_all

lemma allergen_index_exn: "allergen_index data name = Inl e \<Longrightarrow> e = AttributeError"
  unfolding allergen_index_def
  by (cases "dict_get data name (PDict [])") (auto simp: seq_Inl seq_Inr dest: dict_get_exn)

lemma malformed_raises:
  assumes "malformed data"
  shows "seq (allergen_index data key_birke) (\<lambda>b.
         seq (allergen_index data key_graeser) (\<lambda>g.
         seq (allergen_index data key_ambrosia) (\<lambda>a. Inr (f b g a)))) = Inl AttributeError"
proof (cases "is_dict data")
  case False
  then show ?thesis by (simp add: allergen_index_not_dict seq_def)
next
  case True
  then obtain items where d: "data = PDict items" by (cases data) simp_all
  from assms d consider
      "entry_not_object items key_birke"
    | "entry_not_object items key_graeser"
    | "entry_not_object items key_ambrosia" by auto
  then show ?thesis
  proof cases
    case 1
    then show ?thesis unfolding d by (simp add: allergen_index_entry seq_def del: entry_not_object.simps)
  next
    case 2
    then show ?thesis unfolding d
      by (cases "allergen_index (PDict items) key_birke")
         (auto simp: allergen_index_entry seq_Inl seq_Inr simp del: entry_not_object.simps
               dest: allergen_index_exn)
  next
    case 3
    then show ?thesis unfolding d
      by (cases "allergen_index (PDict items) key_birke";
          cases "allergen_index (PDict items) key_graeser")
         (auto simp: allergen_index_entry seq_Inl seq_Inr simp del: entry_not_object.simps
               dest: allergen_index_exn)
  qed
qed

section \<open>Provider A swallows every failure\<close>

text \<open>
  Claim C2, as amended. No exception escapes \<^verbatim>\<open>get_pollenstiftung\<close> on any input, and
  whenever the remote fetch fails (the request raises, the status is a 4xx or 5xx one,
  the body does not parse, or the parsed body is not an object or holds an allergen
  entry that is not an object) the result is the reading with all three values None.
\<close>

theorem pollenstiftung_swallows_failures:
  "(\<exists>d. get_pollenstiftung http_get lat lon = Inr d) \<and>
   (fetch_fails http_get lat lon \<longrightarrow> get_pollenstiftung http_get lat lon = Inr pollen_absent)"
proof
  show "\<exists>d. get_pollenstiftung http_get lat lon = Inr d"
    unfolding get_pollenstiftung_def by (rule try_except_Inr)
next
  show "fetch_fails http_get lat lon \<longrightarrow> get_pollenstiftung http_get lat lon = Inr pollen_absent"
  proof
    assume ff: "fetch_fails http_get lat lon"
    let ?call = "http_get POLLENSTIFTUNG_API_URL [(''lat'', PFloat lat), (''lng'', PFloat lon)]"
    show "get_pollenstiftung http_get lat lon = Inr pollen_absent"
    proof (cases ?call)
      case (Inl e)
      then show ?thesis by (simp add: get_pollenstiftung_def seq_def try_except_def)
    next
      case (Inr resp)
      show ?thesis
      proof (cases "400 \<le> status_code resp \<and> status_code resp < 600")
        case True
        with Inr show ?thesis
          by (simp add: get_pollenstiftung_def seq_def try_except_def raise_for_status_def)
      next
        case False
        then have status: "raise_for_status resp = Inr ()"
          by (simp add: raise_for_status_def)
        show ?thesis
        proof (cases "json_body resp")
          case (Inl e)
          with Inr status show ?thesis
            by (simp add: get_pollenstiftung_def seq_Inl seq_Inr try_except_def)
        next
          case body: (Inr data)
          from ff Inr False body have "malformed data"
            by (simp add: fetch_fails_def)
          from malformed_raises [OF this]
          have "seq (allergen_index data key_birke) (\<lambda>b.
                seq (allergen_index data key_graeser) (\<lambda>g.
                seq (allergen_index data key_ambrosia) (\<lambda>a.
                  Inr [(key_birke, b), (key_graeser, g), (key_ambrosia, a)]))) = Inl AttributeError" .
          with Inr status body show ?thesis
            by (simp add: get_pollenstiftung_def try_except_def seq_Inr)
        qed
      qed
    qed
  qed
qed

text \<open>The theorem at a service that answers 500 and at one that cannot be reached.\<close>

theorem pollenstiftung_swallows_failures_witness:
  "fetch_fails http_500 0 0 \<and> fetch_fails http_down 0 0 \<and>
   get_pollenstiftung http_500 0 0 = Inr pollen_absent \<and>
   get_pollenstiftung http_down 0 0 = Inr pollen_absent"
  using pollenstiftung_swallows_failures [of http_500 0 0]
        pollenstiftung_swallows_failures [of http_down 0 0]
  by (simp add: fetch_fails_def http_500_def http_down_def)

text \<open>
  Claim C2 as written speaks of every non-2xx status. A response with status 300 and a
  parseable forecast is not rejected by \<^verbatim>\<open>raise_for_status\<close>, and its values are
  returned.
\<close>

theorem pollenstiftung_status_300_counterexample:
  "non_2xx \<lparr>status_code = 300, json_body = Inr forecast_body\<rparr> \<and>
   get_pollenstiftung http_300 (5116 / 100) (1045 / 100) =
     Inr [(key_birke, PInt 3), (key_graeser, PInt 1), (key_ambrosia, PInt 0)] \<and>
   get_pollenstiftung http_300 (5116 / 100) (1045 / 100) \<noteq> Inr pollen_absent"
  by (simp add: non_2xx_def get_pollenstiftung_def http_300_def seq_def try_except_def
      raise_for_status_def forecast_body_def allergen_index_def key_defs pollen_absent_def)

section \<open>Provider B selects the first row of the requested date\<close>

lemma filter_by_mask: "map fst (filter snd (zip xs (map P xs))) = filter P xs"
  by (induction xs) simp_all

lemma cell_None: "c \<notin> set (columns df) \<Longrightarrow> cell df r c = None"
proof -
  assume "c \<notin> set (columns df)"
  then have "c \<notin> fst ` set (zip (columns df) r)"
    by (auto dest: set_zip_leftD)
  then show ?thesis
    by (simp add: cell_def map_of_eq_None_iff)
qed

lemma matching_rows_no_column: "''date'' \<notin> set (columns df) \<Longrightarrow> matching_rows df dt = []"
  by (simp add: matching_rows_def cell_None)

lemma selected_rows:
  "''date'' \<in> set (columns df) \<Longrightarrow> getitem_column df ''date'' = Inr dates \<Longrightarrow>
   rows (boolean_index df (eq_mask dates (to_datetime dt))) = matching_rows df dt"
proof -
  assume c: "''date'' \<in> set (columns df)" and g: "getitem_column df ''date'' = Inr dates"
  let ?v = "\<lambda>r. case cell df r ''date'' of Some v \<Rightarrow> v | None \<Rightarrow> PNaN"
  from c g have dates: "dates = map ?v (rows df)"
    by (simp add: getitem_column_def)
  have eq: "(?v r = to_datetime dt) = (cell df r ''date'' = Some (to_datetime dt))" for r
    by (cases "cell df r ''date''") (simp_all add: to_datetime_def)
  have "eq_mask dates (to_datetime dt) = map (\<lambda>r. ?v r = to_datetime dt) (rows df)"
    by (simp add: eq_mask_def dates)
  then have "rows (boolean_index df (eq_mask dates (to_datetime dt)))
      = filter (\<lambda>r. ?v r = to_datetime dt) (rows df)"
    by (simp add: boolean_index_def filter_by_mask)
  then show ?thesis
    by (simp add: matching_rows_def eq)
qed

lemma get_dwd_pollen_eval:
  assumes "read dwd_url = Inr df"
  shows "get_dwd_pollen read lat lon dt =
     Inr (case matching_rows df dt of [] \<Rightarrow> pollen_absent | r # rs \<Rightarrow> reading_of_row df r)"
proof (cases "''date'' \<in> set (columns df)")
  case False
  then have "getitem_column df ''date'' = Inl KeyError"
    by (simp add: getitem_column_def)
  with assms False show ?thesis
    by (simp add: get_dwd_pollen_def seq_Inl seq_Inr try_except_def matching_rows_no_column)
next
  case True
  then obtain dates where g: "getitem_column df ''date'' = Inr dates"
    by (simp add: getitem_column_def)
  let ?sel = "boolean_index df (eq_mask dates (to_datetime dt))"
  have r: "rows ?sel = matching_rows df dt"
    using True g by (rule selected_rows)
  have c: "columns ?sel = columns df"
    by (simp add: boolean_index_def)
  show ?thesis
  proof (cases "matching_rows df dt")
    case Nil
    with r have "iloc0 ?sel = Inl IndexError"
      by (simp add: iloc0_def)
    with assms g Nil show ?thesis
      by (simp add: get_dwd_pollen_def seq_Inl seq_Inr try_except_def)
  next
    case (Cons x xs)
    with r c have "iloc0 ?sel = Inr (zip (columns df) x)"
      by (simp add: iloc0_def)
    with assms g Cons show ?thesis
      by (simp add: get_dwd_pollen_def seq_Inl seq_Inr try_except_def reading_of_row_def)
  qed
qed

text \<open>
  Claim C3. When the dataset downloads and parses and exactly one of its rows has the
  requested date, \<^verbatim>\<open>get_dwd_pollen\<close> returns that row's values of the columns Birke,
  Gr(a-umlaut)ser and Ambrosia under the keys birke, gr(a-umlaut)ser and ambrosia.
\<close>

theorem dwd_single_row:
  assumes "read dwd_url = Inr df" and "matching_rows df dt = [r]"
  shows "get_dwd_pollen read lat lon dt =
     Inr [(key_birke, series_get (zip (columns df) r) col_Birke),
          (key_graeser, series_get (zip (columns df) r) col_Graeser),
          (key_ambrosia, series_get (zip (columns df) r) col_Ambrosia)]"
  using assms by (simp add: get_dwd_pollen_eval reading_of_row_def)

lemma sample_matching_1:
  "matching_rows sample_frame 739007 = [[PTimestamp 739007 0, PInt 3, PInt 1, PInt 0]]"
  by (simp add: matching_rows_def sample_frame_def cell_def to_datetime_def)

lemma sample_matching_2:
  "matching_rows sample_frame 739008 =
     [[PTimestamp 739008 0, PInt 2, PInt 4, PInt 0], [PTimestamp 739008 0, PInt 5, PInt 6, PInt 7]]"
  by (simp add: matching_rows_def sample_frame_def cell_def to_datetime_def)

lemma sample_matching_0: "matching_rows sample_frame 739009 = []"
  by (simp add: matching_rows_def sample_frame_def cell_def to_datetime_def)

theorem dwd_single_row_witness:
  "read_sample dwd_url = Inr sample_frame \<and>
   matching_rows sample_frame 739007 = [[PTimestamp 739007 0, PInt 3, PInt 1, PInt 0]] \<and>
   get_dwd_pollen read_sample (5116 / 100) (1045 / 100) 739007 =
     Inr [(key_birke, PInt 3), (key_graeser, PInt 1), (key_ambrosia, PInt 0)]"
proof -
  have rd: "read_sample dwd_url = Inr sample_frame"
    by (simp add: read_sample_def)
  have res: "get_dwd_pollen read_sample (5116 / 100) (1045 / 100) 739007 =
      Inr [(key_birke, PInt 3), (key_graeser, PInt 1), (key_ambrosia, PInt 0)]"
    using dwd_single_row [where read = read_sample, OF rd sample_matching_1, of "5116 / 100" "1045 / 100"]
    by (simp add: sample_frame_def series_get_def col_defs)
  from rd sample_matching_1 res show ?thesis
    by simp
qed

text \<open>
  Claim C4. When the dataset downloads and parses and none of its rows has the requested
  date, \<^verbatim>\<open>get_dwd_pollen\<close> returns the reading with all three values None; the result
  is a value, not an exception.
\<close>

theorem dwd_no_row:
  assumes "read dwd_url = Inr df" and "matching_rows df dt = []"
  shows "get_dwd_pollen read lat lon dt = Inr pollen_absent"
  using assms by (simp add: get_dwd_pollen_eval)

theorem dwd_no_row_witness:
  "read_sample dwd_url = Inr sample_frame \<and> matching_rows sample_frame 739009 = [] \<and>
   get_dwd_pollen read_sample (5116 / 100) (1045 / 100) 739009 =
     Inr [(key_birke, PNone), (key_graeser, PNone), (key_ambrosia, PNone)]"
proof -
  have rd: "read_sample dwd_url = Inr sample_frame"
    by (simp add: read_sample_def)
  show ?thesis
    using dwd_no_row [where read = read_sample, OF rd sample_matching_0, of "5116 / 100" "1045 / 100"]
    by (simp add: rd sample_matching_0 pollen_absent_def)
qed

text \<open>
  Claim C5. When more than one row has the requested date, \<^verbatim>\<open>get_dwd_pollen\<close> returns
  the mapped values of the first of them in row order.
\<close>

theorem dwd_first_of_many:
  assumes "read dwd_url = Inr df" and "matching_rows df dt = r # r' # rs"
  shows "get_dwd_pollen read lat lon dt =
     Inr [(key_birke, series_get (zip (columns df) r) col_Birke),
          (key_graeser, series_get (zip (columns df) r) col_Graeser),
          (key_ambrosia, series_get (zip (columns df) r) col_Ambrosia)]"
  using assms by (simp add: get_dwd_pollen_eval reading_of_row_def)

theorem dwd_first_of_many_witness:
  "read_sample dwd_url = Inr sample_frame \<and>
   matching_rows sample_frame 739008 =
     [[PTimestamp 739008 0, PInt 2, PInt 4, PInt 0], [PTimestamp 739008 0, PInt 5, PInt 6, PInt 7]] \<and>
   get_dwd_pollen read_sample (5116 / 100) (1045 / 100) 739008 =
     Inr [(key_birke, PInt 2), (key_graeser, PInt 4), (key_ambrosia, PInt 0)]"
proof -
  have rd: "read_sample dwd_url = Inr sample_frame"
    by (simp add: read_sample_def)
  have res: "get_dwd_pollen read_sample (5116 / 100) (1045 / 100) 739008 =
      Inr [(key_birke, PInt 2), (key_graeser, PInt 4), (key_ambrosia, PInt 0)]"
    using dwd_first_of_many [where read = read_sample, OF rd sample_matching_2, of "5116 / 100" "1045 / 100"]
    by (simp add: sample_frame_def series_get_def col_defs)
  from rd sample_matching_2 res show ?thesis
    by simp
qed

text \<open>
  Claim C9. The only URL \<^verbatim>\<open>get_dwd_pollen\<close> reads is the one of station 001, so for
  the same response at that URL the result is the same for any two coordinate pairs.
\<close>

theorem dwd_ignores_coordinates:
  assumes "read1 dwd_url = read2 dwd_url"
  shows "get_dwd_pollen read1 lat1 lon1 dt = get_dwd_pollen read2 lat2 lon2 dt"
  using assms by (simp add: get_dwd_pollen_def)

theorem dwd_ignores_coordinates_witness:
  "get_dwd_pollen read_sample (5116 / 100) (1045 / 100) 739007 =
   get_dwd_pollen read_sample (-33) 151 739007 \<and>
   dwd_url = ''https://opendata.dwd.de/climate_environment/health/pollen_stations/001.csv''"
  using dwd_ignores_coordinates [of read_sample read_sample "5116 / 100" "1045 / 100" 739007 "-33" 151]
  by (simp add: dwd_url_def DWD_POLLEN_BASE_URL_def station_id_def)

section \<open>Both providers return the three keys\<close>

lemma seq_eq_Inr: "seq m f = Inr d \<Longrightarrow> \<exists>v. m = Inr v \<and> f v = Inr d"
  by (cases m) (simp_all add: seq_def)

lemma pollen_shaped_triple: "pollen_shaped [(key_birke, b), (key_graeser, g), (key_ambrosia, a)]"
  by (simp add: pollen_shaped_def key_defs)

lemma try_except_shaped:
  assumes "\<And>d. body = Inr d \<Longrightarrow> pollen_shaped d"
  shows "\<exists>d. try_except body pollen_absent = Inr d \<and> pollen_shaped d"
proof (cases body)
  case (Inl e)
  then show ?thesis
    by (simp add: try_except_def pollen_absent_def pollen_shaped_triple)
next
  case (Inr d)
  with assms show ?thesis
    by (simp add: try_except_def)
qed

text \<open>
  Claim C10. On every path both pollen providers return a dict, and its keys are exactly
  birke, gr(a-umlaut)ser and ambrosia, each once.
\<close>

theorem pollen_providers_shape:
  "(\<exists>d. get_pollenstiftung http_get lat lon = Inr d \<and> pollen_shaped d) \<and>
   (\<exists>d. get_dwd_pollen read lat lon dt = Inr d \<and> pollen_shaped d)"
proof
  show "\<exists>d. get_pollenstiftung http_get lat lon = Inr d \<and> pollen_shaped d"
    unfolding get_pollenstiftung_def
  proof (rule try_except_shaped)
    fix d
    assume "seq (http_get POLLENSTIFTUNG_API_URL [(''lat'', PFloat lat), (''lng'', PFloat lon)]) (\<lambda>resp.
        seq (raise_for_status resp) (\<lambda>_.
        seq (json_body resp) (\<lambda>data.
        seq (allergen_index data key_birke) (\<lambda>b.
        seq (allergen_index data key_graeser) (\<lambda>g.
        seq (allergen_index data key_ambrosia) (\<lambda>a.
        Inr [(key_birke, b), (key_graeser, g), (key_ambrosia, a)])))))) = Inr d"
    then obtain b g a where "d = [(key_birke, b), (key_graeser, g), (key_ambrosia, a)]"
      by (blast dest!: seq_eq_Inr)
    then show "pollen_shaped d"
      by (simp add: pollen_shaped_triple)
  qed
next
  show "\<exists>d. get_dwd_pollen read lat lon dt = Inr d \<and> pollen_shaped d"
    unfolding get_dwd_pollen_def
  proof (rule try_except_shaped)
    fix d
    assume "seq (read dwd_url) (\<lambda>df.
        seq (getitem_column df ''date'') (\<lambda>dates.
        seq (iloc0 (boolean_index df (eq_mask dates (to_datetime dt)))) (\<lambda>row.
        Inr [(key_birke, series_get row col_Birke),
             (key_graeser, series_get row col_Graeser),
             (key_ambrosia, series_get row col_Ambrosia)]))) = Inr d"
    then obtain b g a where "d = [(key_birke, b), (key_graeser, g), (key_ambrosia, a)]"
      by (blast dest!: seq_eq_Inr)
    then show "pollen_shaped d"
      by (simp add: pollen_shaped_triple)
  qed
qed

theorem pollen_providers_shape_witness:
  "pollen_shaped [(key_birke, PInt 3), (key_graeser, PInt 1), (key_ambrosia, PInt 0)] \<and>
   get_pollenstiftung http_300 0 0 = Inr [(key_birke, PInt 3), (key_graeser, PInt 1), (key_ambrosia, PInt 0)] \<and>
   (\<exists>d. get_pollenstiftung http_down 0 0 = Inr d \<and> pollen_shaped d) \<and>
   (\<exists>d. get_dwd_pollen read_down 0 0 739007 = Inr d \<and> pollen_shaped d)"
proof -
  have a: "pollen_shaped [(key_birke, PInt 3), (key_graeser, PInt 1), (key_ambrosia, PInt 0)]"
    by (rule pollen_shaped_triple)
  have b: "get_pollenstiftung http_300 0 0 =
      Inr [(key_birke, PInt 3), (key_graeser, PInt 1), (key_ambrosia, PInt 0)]"
    by (simp add: get_pollenstiftung_def http_300_def seq_def try_except_def
        raise_for_status_def forecast_body_def allergen_index_def key_defs)
  from a b pollen_providers_shape [of http_down 0 0 read_down 739007]
  show ?thesis by blast
qed

section \<open>The station resolver has no error handling\<close>

text \<open>
  Claim C1, as amended. \<^verbatim>\<open>get_weather\<close> handles one case itself: when the station
  lookup succeeds with no station, it returns None and raises nothing. An exception raised
  by the parsing of a date string, by the station lookup or by the fetch of the daily data
  is not caught and leaves the function; otherwise the fetched data is returned.
\<close>

theorem get_weather_behaviour:
  "(normalize_dt env dt = Inl e \<longrightarrow> get_weather env dt lat lon = Inl e) \<and>
   (normalize_dt env dt = Inr d \<and> stations_nearby env lat lon = Inl e \<longrightarrow>
      get_weather env dt lat lon = Inl e) \<and>
   (normalize_dt env dt = Inr d \<and> stations_nearby env lat lon = Inr [] \<longrightarrow>
      get_weather env dt lat lon = Inr None) \<and>
   (normalize_dt env dt = Inr d \<and> stations_nearby env lat lon = Inr (s # ss) \<and>
    daily_fetch env s d d = Inl e \<longrightarrow>
      get_weather env dt lat lon = Inl e) \<and>
   (normalize_dt env dt = Inr d \<and> stations_nearby env lat lon = Inr (s # ss) \<and>
    daily_fetch env s d d = Inr data \<longrightarrow>
      get_weather env dt lat lon = Inr (Some data))"
  by (simp add: get_weather_def seq_Inl seq_Inr)

text \<open>
  The theorem at a malformed date string, an unreachable station directory, a directory
  with no station nearby, a station whose data cannot be fetched, and a station with
  data.
\<close>

theorem get_weather_behaviour_witness:
  "get_weather env_offline (DtStr ''yesterday'') (5116 / 100) (1045 / 100) = Inl ValueError \<and>
   get_weather env_offline (DtDate 739007) (5116 / 100) (1045 / 100) = Inl ConnectionError \<and>
   get_weather env_no_station (DtDate 739007) (5116 / 100) (1045 / 100) = Inr None \<and>
   get_weather env_daily_down (DtDate 739007) (5116 / 100) (1045 / 100) = Inl ConnectionError \<and>
   get_weather env_ok (DtDate 739007) (5116 / 100) (1045 / 100) = Inr (Some daily_frame)"
  using get_weather_behaviour
          [where env = env_offline and dt = "DtStr ''yesterday''" and e = ValueError
             and lat = "5116 / 100" and lon = "1045 / 100"]
        get_weather_behaviour
          [where env = env_offline and dt = "DtDate 739007" and d = 739007
             and lat = "5116 / 100" and lon = "1045 / 100" and e = ConnectionError]
        get_weather_behaviour
          [where env = env_no_station and dt = "DtDate 739007" and d = 739007
             and lat = "5116 / 100" and lon = "1045 / 100"]
        get_weather_behaviour
          [where env = env_daily_down and dt = "DtDate 739007" and d = 739007
             and lat = "5116 / 100" and lon = "1045 / 100" and s = "''10554''" and ss = "[]"
             and e = ConnectionError]
        get_weather_behaviour
          [where env = env_ok and dt = "DtDate 739007" and d = 739007
             and lat = "5116 / 100" and lon = "1045 / 100" and s = "''10554''" and ss = "[]"
             and data = daily_frame]
  by (simp add: env_offline_def env_no_station_def env_daily_down_def env_ok_def)

text \<open>
  Claim C1 as written: every lookup or network failure gives a reading whose fields are
  absent, and nothing is raised. With the station directory unreachable the function
  raises ConnectionError; with no station nearby its result is None, which is not a
  reading: subscripting it, as the caller does, raises TypeError.
\<close>

theorem get_weather_counterexample:
  "get_weather env_offline (DtDate 739007) (5116 / 100) (1045 / 100) = Inl ConnectionError \<and>
   \<not> not_found_shaped (get_weather env_offline (DtDate 739007) (5116 / 100) (1045 / 100)) \<and>
   get_weather env_no_station (DtDate 739007) (5116 / 100) (1045 / 100) = Inr None \<and>
   \<not> not_found_shaped (get_weather env_no_station (DtDate 739007) (5116 / 100) (1045 / 100)) \<and>
   weather_getitem None ''tavg'' = Inl TypeError"
  by (simp add: get_weather_def seq_Inl seq_Inr env_offline_def env_no_station_def
      not_found_shaped_def weather_getitem_def)

section \<open>The save block\<close>

lemma make_entry_eval:
  assumes "make_entry u = Inr entry"
  shows "\<exists>tavg rhum prcp b g a.
     weather_getitem (ui_weather u) ''tavg'' = Inr tavg \<and>
     weather_getitem (ui_weather u) ''rhum'' = Inr rhum \<and>
     weather_getitem (ui_weather u) ''prcp'' = Inr prcp \<and>
     dict_getitem (ui_pollen u) key_birke = Inr b \<and>
     dict_getitem (ui_pollen u) key_graeser = Inr g \<and>
     dict_getitem (ui_pollen u) key_ambrosia = Inr a \<and>
     entry = [(''Datum'', PDate (ui_dt u)),
          (''lat'', PFloat (ui_lat u)), (''lon'', PFloat (ui_lon u)),
          (''tavg'', tavg), (''rhum'', rhum), (''prcp'', prcp),
          (key_birke, b), (key_graeser, g), (key_ambrosia, a),
          (''muedigkeit'', PInt (ui_fatigue u)),
          (''nase_laufen'', PInt (ui_runnynose u)),
          (''halsweh'', PInt (ui_sorethroat u)),
          (''anmerkungen'', PStr (ui_notes u))]"
  using assms unfolding make_entry_def
  by (fastforce dest!: seq_eq_Inr)

lemma header_of_entry: "make_entry u = Inr entry \<Longrightarrow> map (PStr \<circ> fst) entry = header_record"
  by (drule make_entry_eval) (auto simp: header_record_def)

lemma data_of_entry: "make_entry u = Inr entry \<Longrightarrow> map snd entry = data_record u"
  by (simp add: data_record_def)

lemma length_data_record: "make_entry u = Inr entry \<Longrightarrow> length (data_record u) = 13"
  by (frule make_entry_eval) (auto simp: data_record_def)

lemma csv_text_append: "csv_text w (xs @ ys) = csv_text w xs @ csv_text w ys"
  by (simp add: csv_text_def)

lemma save_entry_existing:
  assumes "make_entry u = Inr entry" and "write_error fs store_file = None"
    and "files fs store_file = Some old"
  shows "save_entry w fs u =
     Inr (fs\<lparr>files := (files fs)(store_file \<mapsto> old @ csv_text w [data_record u])\<rparr>)"
  using assms
  by (simp add: save_entry_def seq_Inr os_path_exists_def to_csv_def DataFrame_of_def
      csv_records_def data_of_entry Let_def)

lemma save_entry_fresh:
  assumes "make_entry u = Inr entry" and "write_error fs store_file = None"
    and "files fs store_file = None"
  shows "save_entry w fs u =
     Inr (fs\<lparr>files := (files fs)(store_file \<mapsto> csv_text w [header_record, data_record u])\<rparr>)"
  using assms
  by (simp add: save_entry_def seq_Inr os_path_exists_def to_csv_def DataFrame_of_def
      csv_records_def data_of_entry header_of_entry Let_def)

lemma save_entry_write_error:
  assumes "make_entry u = Inr entry" and "write_error fs store_file = Some e"
  shows "save_entry w fs u = Inl e"
  using assms
  by (simp add: save_entry_def seq_Inr os_path_exists_def to_csv_def Let_def)

lemma assemblesD: "assembles u \<Longrightarrow> \<exists>entry. make_entry u = Inr entry"
  by (cases "make_entry u") (simp_all add: assembles_def)

lemma save_all_existing:
  assumes "write_error fs store_file = None" and "files fs store_file = Some old"
    and "list_all assembles us"
  shows "\<exists>fs'. save_all w fs us = Inr fs' \<and>
           files fs' store_file = Some (old @ csv_text w (map data_record us)) \<and>
           write_error fs' = write_error fs"
  using assms
proof (induction us arbitrary: fs old)
  case Nil
  then show ?case by (simp add: csv_text_def)
next
  case (Cons u us)
  from Cons.prems obtain entry where e: "make_entry u = Inr entry"
    by (auto dest: assemblesD)
  let ?fs1 = "fs\<lparr>files := (files fs)(store_file \<mapsto> old @ csv_text w [data_record u])\<rparr>"
  have s: "save_entry w fs u = Inr ?fs1"
    using e Cons.prems(1,2) by (rule save_entry_existing)
  have "\<exists>fs'. save_all w ?fs1 us = Inr fs' \<and>
           files fs' store_file =
             Some ((old @ csv_text w [data_record u]) @ csv_text w (map data_record us)) \<and>
           write_error fs' = write_error ?fs1"
    using Cons.prems by (intro Cons.IH) simp_all
  with s show ?case
    by (simp add: seq_Inr csv_text_def)
qed

lemma save_all_fresh:
  assumes "write_error fs store_file = None" and "files fs store_file = None"
    and "assembles u" and "list_all assembles us"
  shows "\<exists>fs'. save_all w fs (u # us) = Inr fs' \<and>
           files fs' store_file = Some (csv_text w (header_record # map data_record (u # us)))"
proof -
  from assms(3) obtain entry where e: "make_entry u = Inr entry"
    by (auto dest: assemblesD)
  let ?fs1 = "fs\<lparr>files := (files fs)(store_file \<mapsto> csv_text w [header_record, data_record u])\<rparr>"
  have s: "save_entry w fs u = Inr ?fs1"
    using e assms(1,2) by (rule save_entry_fresh)
  have "\<exists>fs'. save_all w ?fs1 us = Inr fs' \<and>
           files fs' store_file =
             Some (csv_text w [header_record, data_record u] @ csv_text w (map data_record us)) \<and>
           write_error fs' = write_error ?fs1"
    using assms(1,4) by (intro save_all_existing) simp_all
  moreover have "csv_text w [header_record, data_record u] @ csv_text w (map data_record us)
      = csv_text w (header_record # map data_record (u # us))"
    by (simp add: csv_text_def)
  ultimately show ?thesis
    using s by (auto simp: seq_Inr)
qed

lemma data_record_hd: "assembles u \<Longrightarrow> hd (data_record u) = PDate (ui_dt u)"
proof -
  assume "assembles u"
  then obtain entry where e: "make_entry u = Inr entry"
    by (auto dest: assemblesD)
  from make_entry_eval [OF e] have "hd (map snd entry) = PDate (ui_dt u)"
    by auto
  with e show ?thesis
    by (simp add: data_record_def)
qed

lemma data_record_not_header: "assembles u \<Longrightarrow> data_record u \<noteq> header_record"
proof
  assume "assembles u" and "data_record u = header_record"
  then have "hd header_record = PDate (ui_dt u)"
    by (simp add: data_record_hd [symmetric])
  then show False
    by (simp add: header_record_def)
qed

lemma data_record_conforms:
  assumes "assembles u"
  shows "\<exists>entry. make_entry u = Inr entry \<and> map PStr (map fst entry) = header_record \<and>
           map snd entry = data_record u \<and> length (data_record u) = 13"
  using assms
  by (auto dest!: assemblesD simp: header_of_entry data_of_entry length_data_record)

lemma assembles_conforms: "assembles u \<Longrightarrow> conforms u"
proof -
  assume "assembles u"
  then obtain entry where e: "make_entry u = Inr entry"
    by (auto dest: assemblesD)
  from make_entry_eval [OF e] have "length entry = 13"
    by auto
  with e show ?thesis
    by (simp add: conforms_def header_of_entry)
qed

text \<open>
  Claim C7. The store file is its text; a row is the line \<^verbatim>\<open>to_csv\<close> writes for a
  record, line terminator included. For a submission whose entry assembles, on a store
  path that can be written: if the store file exists, the save writes the one line of the
  data record directly after the content that is there, and no header line; so a
  content that is the text of complete rows becomes the text of these rows followed by
  the new row. If the file does not exist, the save creates it with the header line
  followed by the data line. Saving one or more submissions in a row, starting without a
  store file, leaves the text of the header record followed by one data record per
  submission, in order; no data record is the header record, and every data record has
  the header's keys in the header's order and the header's number of cells.
\<close>

theorem store_append_policy:
  assumes "write_error fs store_file = None" and "assembles u" and "list_all assembles us"
  shows "(files fs store_file = Some old \<longrightarrow>
            (\<exists>fs'. save_entry w fs u = Inr fs' \<and>
                   files fs' store_file = Some (old @ csv_text w [data_record u]))) \<and>
         (files fs store_file = Some (csv_text w olds) \<longrightarrow>
            (\<exists>fs'. save_entry w fs u = Inr fs' \<and>
                   files fs' store_file = Some (csv_text w (olds @ [data_record u])))) \<and>
         (files fs store_file = None \<longrightarrow>
            (\<exists>fs'. save_entry w fs u = Inr fs' \<and>
                   files fs' store_file = Some (csv_text w [header_record, data_record u]))) \<and>
         (files fs store_file = None \<longrightarrow>
            (\<exists>fs'. save_all w fs (u # us) = Inr fs' \<and>
                   files fs' store_file =
                     Some (csv_text w (header_record # map data_record (u # us))))) \<and>
         header_record \<notin> set (map data_record (u # us)) \<and>
         list_all conforms (u # us) \<and>
         list_all (\<lambda>v. length (data_record v) = length header_record) (u # us)"
proof -
  from assms(2) obtain entry where e: "make_entry u = Inr entry"
    by (auto dest: assemblesD)
  have all: "list_all assembles (u # us)"
    using assms(2,3) by simp
  have 1: "files fs store_file = Some old \<longrightarrow>
            (\<exists>fs'. save_entry w fs u = Inr fs' \<and>
                   files fs' store_file = Some (old @ csv_text w [data_record u]))"
    using e assms(1) by (auto simp: save_entry_existing)
  have 2: "files fs store_file = Some (csv_text w olds) \<longrightarrow>
            (\<exists>fs'. save_entry w fs u = Inr fs' \<and>
                   files fs' store_file = Some (csv_text w (olds @ [data_record u])))"
    using e assms(1) by (auto simp: save_entry_existing csv_text_append)
  have 3: "files fs store_file = None \<longrightarrow>
            (\<exists>fs'. save_entry w fs u = Inr fs' \<and>
                   files fs' store_file = Some (csv_text w [header_record, data_record u]))"
    using e assms(1) by (auto simp: save_entry_fresh)
  have 4: "files fs store_file = None \<longrightarrow>
            (\<exists>fs'. save_all w fs (u # us) = Inr fs' \<and>
                   files fs' store_file =
                     Some (csv_text w (header_record # map data_record (u # us))))"
    using assms by (blast intro: save_all_fresh)
  have 5: "header_record \<notin> set (map data_record (u # us))"
  proof
    assume "header_record \<in> set (map data_record (u # us))"
    then obtain v where "v \<in> set (u # us)" and "data_record v = header_record"
      unfolding set_map by (metis imageE)
    with all show False
      unfolding list_all_iff by (blast dest: data_record_not_header)
  qed
  have 6: "list_all conforms (u # us)"
    using all unfolding list_all_iff by (blast intro: assembles_conforms)
  have len: "length header_record = 13"
    by (simp add: header_record_def)
  have 7: "list_all (\<lambda>v. length (data_record v) = length header_record) (u # us)"
    using all unfolding list_all_iff len by (blast dest: data_record_conforms)
  from 1 2 3 4 5 6 7 show ?thesis
    by blast
qed

lemma sample_entry:
  "make_entry sample_ui =
     Inr [(''Datum'', PDate 739007), (''lat'', PFloat (5116 / 100)), (''lon'', PFloat (1045 / 100)),
          (''tavg'', PSeries [PFloat (25 / 2)]), (''rhum'', PSeries [PFloat 60]),
          (''prcp'', PSeries [PFloat 0]),
          (key_birke, PInt 3), (key_graeser, PInt 1), (key_ambrosia, PInt 0),
          (''muedigkeit'', PInt 5), (''nase_laufen'', PInt 0), (''halsweh'', PInt 0),
          (''anmerkungen'', PStr ''ok'')]"
  by (simp add: make_entry_def sample_ui_def weather_getitem_def getitem_column_def daily_frame_def
      cell_def dict_getitem_def seq_Inr key_defs)

lemma sample_assembles: "assembles sample_ui"
  by (simp add: assembles_def sample_entry)

lemma sample_record:
  "data_record sample_ui =
     [PDate 739007, PFloat (5116 / 100), PFloat (1045 / 100),
      PSeries [PFloat (25 / 2)], PSeries [PFloat 60], PSeries [PFloat 0],
      PInt 3, PInt 1, PInt 0, PInt 5, PInt 0, PInt 0, PStr ''ok'']"
  by (simp add: data_record_def sample_entry)

lemma sample_data_line:
  "csv_text posix_csv [data_record sample_ui] = '',,,,,,,,,,,,ok'' @ [CHR 0x0A]"
  by (simp add: csv_text_def sample_record posix_csv_def)

lemma sample_header_line:
  "csv_line posix_csv header_record =
     ''Datum,lat,lon,tavg,rhum,prcp,birke,gr'' @ [CHR 0xE4] @
     ''ser,ambrosia,muedigkeit,nase_laufen,halsweh,anmerkungen''"
  by (simp add: header_record_def posix_csv_def key_defs)

text \<open>
  The theorem at a store file that holds the header line, at one that holds the header's
  text without its line terminator (the data line then continues that line: the file
  is one line of 25 cells), and at three saves starting without a store file.
\<close>

theorem store_append_policy_witness:
  "(\<exists>fs'. save_entry posix_csv fs_existing sample_ui = Inr fs' \<and>
          files fs' store_file = Some (csv_text posix_csv [header_record, data_record sample_ui])) \<and>
   (\<exists>fs'. save_entry posix_csv fs_unterminated sample_ui = Inr fs' \<and>
          files fs' store_file =
            Some (''Datum,lat,lon,tavg,rhum,prcp,birke,gr'' @ [CHR 0xE4] @
                  ''ser,ambrosia,muedigkeit,nase_laufen,halsweh,anmerkungen,,,,,,,,,,,,ok'' @
                  [CHR 0x0A])) \<and>
   (\<exists>fs'. save_entry posix_csv fs_empty sample_ui = Inr fs' \<and>
          files fs' store_file = Some (csv_text posix_csv [header_record, data_record sample_ui])) \<and>
   (\<exists>fs'. save_all posix_csv fs_empty [sample_ui, sample_ui, sample_ui] = Inr fs' \<and>
          files fs' store_file =
            Some (csv_text posix_csv
              [header_record, data_record sample_ui, data_record sample_ui, data_record sample_ui])) \<and>
   length (data_record sample_ui) = 13 \<and> length header_record = 13"
proof -
  have w1: "write_error fs_existing store_file = None"
    by (simp add: fs_existing_def)
  have w2: "write_error fs_empty store_file = None"
    by (simp add: fs_empty_def)
  have w3: "write_error fs_unterminated store_file = None"
    by (simp add: fs_unterminated_def)
  have us: "list_all assembles [sample_ui, sample_ui]"
    by (simp add: sample_assembles)
  have f1: "files fs_existing store_file = Some (csv_text posix_csv [header_record])"
    by (simp add: fs_existing_def)
  have f2: "files fs_empty store_file = None"
    by (simp add: fs_empty_def)
  have f3: "files fs_unterminated store_file = Some (csv_line posix_csv header_record)"
    by (simp add: fs_unterminated_def)
  have a: "\<exists>fs'. save_entry posix_csv fs_existing sample_ui = Inr fs' \<and>
      files fs' store_file = Some (csv_text posix_csv [header_record, data_record sample_ui])"
    using store_append_policy
      [OF w1 sample_assembles us, where w = posix_csv and olds = "[header_record]"] f1
    by simp
  have b: "\<exists>fs'. save_entry posix_csv fs_unterminated sample_ui = Inr fs' \<and>
      files fs' store_file =
        Some (csv_line posix_csv header_record @ csv_text posix_csv [data_record sample_ui])"
    using store_append_policy
      [OF w3 sample_assembles us, where w = posix_csv
         and old = "csv_line posix_csv header_record"] f3
    by simp
  have c: "(\<exists>fs'. save_entry posix_csv fs_empty sample_ui = Inr fs' \<and>
          files fs' store_file = Some (csv_text posix_csv [header_record, data_record sample_ui])) \<and>
      (\<exists>fs'. save_all posix_csv fs_empty [sample_ui, sample_ui, sample_ui] = Inr fs' \<and>
          files fs' store_file =
            Some (csv_text posix_csv
              [header_record, data_record sample_ui, data_record sample_ui, data_record sample_ui]))"
    using store_append_policy [OF w2 sample_assembles us, where w = posix_csv] f2
    by simp
  have d: "length (data_record sample_ui) = 13 \<and> length header_record = 13"
    by (simp add: sample_record header_record_def)
  from a b c d show ?thesis
    by (simp add: sample_data_line sample_header_line)
qed

text \<open>
  Claim C6. When writing the store file raises an error, that error leaves the save
  block; the same error raised by the remote service or the dataset download is replaced
  by the all-None reading in both pollen providers.
\<close>

theorem save_entry_surfaces_io_error:
  assumes "assembles u" and "write_error fs store_file = Some e"
  shows "save_entry w fs u = Inl e \<and>
         get_pollenstiftung (\<lambda>url params. Inl e) lat lon = Inr pollen_absent \<and>
         get_dwd_pollen (\<lambda>url. Inl e) lat lon dt = Inr pollen_absent"
proof -
  from assms(1) obtain entry where "make_entry u = Inr entry"
    by (auto dest: assemblesD)
  then have "save_entry w fs u = Inl e"
    using assms(2) by (rule save_entry_write_error)
  moreover have "get_pollenstiftung (\<lambda>url params. Inl e) lat lon = Inr pollen_absent"
    by (simp add: get_pollenstiftung_def seq_Inl try_except_def)
  moreover have "get_dwd_pollen (\<lambda>url. Inl e) lat lon dt = Inr pollen_absent"
    by (simp add: get_dwd_pollen_def seq_Inl try_except_def)
  ultimately show ?thesis
    by simp
qed

theorem save_entry_surfaces_io_error_witness:
  "assembles sample_ui \<and> write_error fs_readonly store_file = Some OSError \<and>
   save_entry posix_csv fs_readonly sample_ui = Inl OSError"
proof -
  have w: "write_error fs_readonly store_file = Some OSError"
    by (simp add: fs_readonly_def)
  from save_entry_surfaces_io_error [OF sample_assembles w, where w = posix_csv] sample_assembles w
  show ?thesis
    by simp
qed

lemma save_entry_Inr:
  assumes "save_entry w fs u = Inr fs'"
  shows "assembles u \<and> write_error fs store_file = None"
proof -
  from assms obtain entry where e: "make_entry u = Inr entry"
    unfolding save_entry_def by (blast dest: seq_eq_Inr)
  have "write_error fs store_file = None"
  proof (cases "write_error fs store_file")
    case None
    then show ?thesis .
  next
    case (Some err)
    with e have "save_entry w fs u = Inl err"
      by (rule save_entry_write_error)
    with assms show ?thesis
      by simp
  qed
  with e show ?thesis
    by (simp add: assembles_def)
qed

text \<open>
  Claim C8. The text a successful save writes to the store file is the text of records
  whose cells are date, latitude, longitude, tavg, rhum, prcp, birke, gr(a-umlaut)ser,
  ambrosia, fatigue, runny nose, sore throat, notes, in this order: when the file did not
  exist, the header record that names these thirteen columns followed by the data record
  of their values; when it existed, the data record alone, written after the former
  content, which is kept as it was.
\<close>

theorem store_column_order:
  assumes "save_entry w fs u = Inr fs'"
  shows "\<exists>tavg rhum prcp b g a.
     weather_getitem (ui_weather u) ''tavg'' = Inr tavg \<and>
     weather_getitem (ui_weather u) ''rhum'' = Inr rhum \<and>
     weather_getitem (ui_weather u) ''prcp'' = Inr prcp \<and>
     dict_getitem (ui_pollen u) key_birke = Inr b \<and>
     dict_getitem (ui_pollen u) key_graeser = Inr g \<and>
     dict_getitem (ui_pollen u) key_ambrosia = Inr a \<and>
     files fs' store_file =
       Some ((case files fs store_file of
                None \<Rightarrow> csv_text w
                         [[PStr ''Datum'', PStr ''lat'', PStr ''lon'',
                           PStr ''tavg'', PStr ''rhum'', PStr ''prcp'',
                           PStr key_birke, PStr key_graeser, PStr key_ambrosia,
                           PStr ''muedigkeit'', PStr ''nase_laufen'', PStr ''halsweh'',
                           PStr ''anmerkungen'']]
              | Some old \<Rightarrow> old) @
             csv_text w
               [[PDate (ui_dt u), PFloat (ui_lat u), PFloat (ui_lon u),
                 tavg, rhum, prcp, b, g, a,
                 PInt (ui_fatigue u), PInt (ui_runnynose u), PInt (ui_sorethroat u),
                 PStr (ui_notes u)]])"
proof -
  from save_entry_Inr [OF assms] have w: "write_error fs store_file = None" and "assembles u"
    by simp_all
  then obtain entry where e: "make_entry u = Inr entry"
    by (auto dest: assemblesD)
  from make_entry_eval [OF e] obtain tavg rhum prcp b g a where
    vals: "weather_getitem (ui_weather u) ''tavg'' = Inr tavg"
      "weather_getitem (ui_weather u) ''rhum'' = Inr rhum"
      "weather_getitem (ui_weather u) ''prcp'' = Inr prcp"
      "dict_getitem (ui_pollen u) key_birke = Inr b"
      "dict_getitem (ui_pollen u) key_graeser = Inr g"
      "dict_getitem (ui_pollen u) key_ambrosia = Inr a"
    and entry: "entry = [(''Datum'', PDate (ui_dt u)),
          (''lat'', PFloat (ui_lat u)), (''lon'', PFloat (ui_lon u)),
          (''tavg'', tavg), (''rhum'', rhum), (''prcp'', prcp),
          (key_birke, b), (key_graeser, g), (key_ambrosia, a),
          (''muedigkeit'', PInt (ui_fatigue u)),
          (''nase_laufen'', PInt (ui_runnynose u)),
          (''halsweh'', PInt (ui_sorethroat u)),
          (''anmerkungen'', PStr (ui_notes u))]"
    by blast
  from e entry have rec: "data_record u =
      [PDate (ui_dt u), PFloat (ui_lat u), PFloat (ui_lon u), tavg, rhum, prcp, b, g, a,
       PInt (ui_fatigue u), PInt (ui_runnynose u), PInt (ui_sorethroat u), PStr (ui_notes u)]"
    by (simp add: data_record_def)
  have hdr: "header_record =
      [PStr ''Datum'', PStr ''lat'', PStr ''lon'', PStr ''tavg'', PStr ''rhum'', PStr ''prcp'',
       PStr key_birke, PStr key_graeser, PStr key_ambrosia,
       PStr ''muedigkeit'', PStr ''nase_laufen'', PStr ''halsweh'', PStr ''anmerkungen'']"
    by (simp add: header_record_def)
  have "files fs' store_file =
      Some ((case files fs store_file of
               None \<Rightarrow> csv_text w [header_record]
             | Some old \<Rightarrow> old) @ csv_text w [data_record u])"
  proof (cases "files fs store_file")
    case None
    with e w have "save_entry w fs u =
        Inr (fs\<lparr>files := (files fs)(store_file \<mapsto> csv_text w [header_record, data_record u])\<rparr>)"
      by (simp add: save_entry_fresh)
    with assms None show ?thesis
      by (auto simp: csv_text_def)
  next
    case (Some old)
    with e w have "save_entry w fs u =
        Inr (fs\<lparr>files := (files fs)(store_file \<mapsto> old @ csv_text w [data_record u])\<rparr>)"
      by (simp add: save_entry_existing)
    with assms Some show ?thesis
      by auto
  qed
  then have "files fs' store_file =
       Some ((case files fs store_file of
                None \<Rightarrow> csv_text w
                         [[PStr ''Datum'', PStr ''lat'', PStr ''lon'',
                           PStr ''tavg'', PStr ''rhum'', PStr ''prcp'',
                           PStr key_birke, PStr key_graeser, PStr key_ambrosia,
                           PStr ''muedigkeit'', PStr ''nase_laufen'', PStr ''halsweh'',
                           PStr ''anmerkungen'']]
              | Some old \<Rightarrow> old) @
             csv_text w
               [[PDate (ui_dt u), PFloat (ui_lat u), PFloat (ui_lon u),
                 tavg, rhum, prcp, b, g, a,
                 PInt (ui_fatigue u), PInt (ui_runnynose u), PInt (ui_sorethroat u),
                 PStr (ui_notes u)]])"
    unfolding rec hdr .
  with vals show ?thesis
    by blast
qed

lemma sample_save:
  "save_entry posix_csv fs_empty sample_ui =
     Inr (fs_empty\<lparr>files := (files fs_empty)
       (store_file \<mapsto> csv_text posix_csv [header_record, data_record sample_ui])\<rparr>)"
  using sample_entry by (rule save_entry_fresh) (simp_all add: fs_empty_def)

lemma sample_save_unterminated:
  "save_entry posix_csv fs_unterminated sample_ui =
     Inr (fs_unterminated\<lparr>files := (files fs_unterminated)
       (store_file \<mapsto> csv_line posix_csv header_record @
                        csv_text posix_csv [data_record sample_ui])\<rparr>)"
  using sample_entry by (rule save_entry_existing) (simp_all add: fs_unterminated_def)

text \<open>
  The theorem at a save without a store file and at a save on a store file whose last
  line has no terminator.
\<close>

theorem store_column_order_witness:
  "(\<exists>fs'. save_entry posix_csv fs_empty sample_ui = Inr fs' \<and>
     files fs' store_file =
       Some (csv_text posix_csv
         [[PStr ''Datum'', PStr ''lat'', PStr ''lon'', PStr ''tavg'', PStr ''rhum'',
           PStr ''prcp'', PStr key_birke, PStr key_graeser, PStr key_ambrosia,
           PStr ''muedigkeit'', PStr ''nase_laufen'', PStr ''halsweh'', PStr ''anmerkungen''],
          [PDate 739007, PFloat (5116 / 100), PFloat (1045 / 100),
           PSeries [PFloat (25 / 2)], PSeries [PFloat 60], PSeries [PFloat 0],
           PInt 3, PInt 1, PInt 0, PInt 5, PInt 0, PInt 0, PStr ''ok'']])) \<and>
   (\<exists>fs'. save_entry posix_csv fs_unterminated sample_ui = Inr fs' \<and>
     files fs' store_file =
       Some (csv_line posix_csv header_record @
             csv_text posix_csv
               [[PDate 739007, PFloat (5116 / 100), PFloat (1045 / 100),
                 PSeries [PFloat (25 / 2)], PSeries [PFloat 60], PSeries [PFloat 0],
                 PInt 3, PInt 1, PInt 0, PInt 5, PInt 0, PInt 0, PStr ''ok'']]))"
proof -
  have v: "weather_getitem (ui_weather sample_ui) ''tavg'' = Inr (PSeries [PFloat (25 / 2)])"
      "weather_getitem (ui_weather sample_ui) ''rhum'' = Inr (PSeries [PFloat 60])"
      "weather_getitem (ui_weather sample_ui) ''prcp'' = Inr (PSeries [PFloat 0])"
      "dict_getitem (ui_pollen sample_ui) key_birke = Inr (PInt 3)"
      "dict_getitem (ui_pollen sample_ui) key_graeser = Inr (PInt 1)"
      "dict_getitem (ui_pollen sample_ui) key_ambrosia = Inr (PInt 0)"
    by (simp_all add: sample_ui_def weather_getitem_def getitem_column_def daily_frame_def
        cell_def dict_getitem_def seq_Inr key_defs)
  have u: "ui_dt sample_ui = 739007" "ui_lat sample_ui = 5116 / 100"
      "ui_lon sample_ui = 1045 / 100" "ui_fatigue sample_ui = 5" "ui_runnynose sample_ui = 0"
      "ui_sorethroat sample_ui = 0" "ui_notes sample_ui = ''ok''"
    by (simp_all add: sample_ui_def)
  have f: "files fs_empty store_file = None"
      "files fs_unterminated store_file = Some (csv_line posix_csv header_record)"
    by (simp_all add: fs_empty_def fs_unterminated_def)
  from store_column_order [OF sample_save] store_column_order [OF sample_save_unterminated]
  show ?thesis
    unfolding v u f by (simp add: sample_save sample_save_unterminated csv_text_def)
qed

end
